theory Spec2Isabelle
  imports Main
begin

section \<open>Static type checking of Java expressions (java\_type\_checker/expressions.py)\<close>

subsection \<open>The type model used by the expression tree\<close>

text \<open>
  Modelled from the spec: the module \<^verbatim>\<open>types.py\<close> (JavaType, JavaMethod, JavaBuiltInTypes,
  NoSuchJavaMethod) is imported by expressions.py but is not part of the sources at hand.
  The expression checker uses only four things of it: the attribute \<^verbatim>\<open>name\<close> of a type, the
  predicate \<^verbatim>\<open>is_subtype_of\<close>, the lookup \<^verbatim>\<open>get_method\<close>, and the attributes
  \<^verbatim>\<open>parameter_types\<close> and \<^verbatim>\<open>return_type\<close> of a method. They are taken as a parameter: a type
  is a value of an arbitrary HOL type \<open>'ty\<close>, and a type model gives the name, the subtype
  predicate and the declared methods of every type. Nothing is assumed of the subtype
  predicate (not even reflexivity), so every theorem holds for every type model.
\<close>

record 'ty java_method =
  parameter_types :: "'ty list"
  return_type :: 'ty

record 'ty type_model =
  type_name :: "'ty \<Rightarrow> string"
  is_subtype_of :: "'ty \<Rightarrow> 'ty \<Rightarrow> bool"
  methods :: "'ty \<Rightarrow> string \<Rightarrow> 'ty java_method option"
  NULL :: 'ty

text \<open>
  Every exception the two operations can raise is a value. \<open>NotImplementedError\<close>,
  \<open>AttributeError\<close> and \<open>IndexError\<close> are Python's own; the other four are the diagnostics
  of the checker (subclasses of JavaTypeError). \<open>NoSuchJavaMethod\<close> carries the name of the
  type and the name of the method, \<open>AttributeError\<close> the name of the missing attribute, the
  others their message.
\<close>

datatype error =
    NotImplementedError string
  | AttributeError string
  | IndexError
  | NoSuchJavaMethod string string
  | JavaTypeMismatchError string
  | JavaArgumentCountError string
  | JavaIllegalInstantiationError string

text \<open>
  Modelled from the spec: \<^verbatim>\<open>JavaType.get_method\<close> (in types.py). It returns the one signature
  declared under the name, or fails with a no-such-method condition that identifies the type
  and the method name.
\<close>

definition get_method :: "'ty type_model \<Rightarrow> 'ty \<Rightarrow> string \<Rightarrow> error + 'ty java_method" where
  "get_method tm t m =
     (case methods tm t m of
        Some meth \<Rightarrow> Inr meth
      | None \<Rightarrow> Inl (NoSuchJavaMethod (type_name tm t) m))"

subsection \<open>Expression trees\<close>

datatype 'ty java_expression =
    JavaVariable (name: string) (declared_type: 'ty)
  | JavaLiteral (val: string) (type: 'ty)
  | JavaAssignment (lhs: "'ty java_expression") (rhs: "'ty java_expression")
  | JavaMethodCall (receiver: "'ty java_expression") (method_name: string)
      (args: "'ty java_expression list")
  | JavaConstructorCall (instantiated_type: 'ty) (cargs: "'ty java_expression list")

text \<open>JavaNullLiteral is the JavaLiteral with value \<^verbatim>\<open>"null"\<close> and the type \<^verbatim>\<open>JavaBuiltInTypes.NULL\<close>.\<close>

definition JavaNullLiteral :: "'ty type_model \<Rightarrow> 'ty java_expression" where
  "JavaNullLiteral tm = JavaLiteral ''null'' (NULL tm)"

text \<open>\<^verbatim>\<open>type(self).__name__\<close>\<close>

fun class_name :: "'ty java_expression \<Rightarrow> string" where
  "class_name (JavaVariable n d) = ''JavaVariable''"
| "class_name (JavaLiteral v t) = ''JavaLiteral''"
| "class_name (JavaAssignment l r) = ''JavaAssignment''"
| "class_name (JavaMethodCall recv m as) = ''JavaMethodCall''"
| "class_name (JavaConstructorCall t as) = ''JavaConstructorCall''"

subsection \<open>String formatting\<close>

text \<open>\<^verbatim>\<open>', '.join(names)\<close>\<close>

fun join_comma :: "string list \<Rightarrow> string" where
  "join_comma [] = []"
| "join_comma [s] = s"
| "join_comma (s # t # ss) = s @ '', '' @ join_comma (t # ss)"

text \<open>The decimal text of a non-negative integer, as \<^verbatim>\<open>str.format\<close> prints a length.\<close>

definition digit_char :: "nat \<Rightarrow> char" where
  "digit_char d = ''0123456789'' ! d"

fun str_nat :: "nat \<Rightarrow> string" where
  "str_nat n = (if n < 10 then [digit_char n] else str_nat (n div 10) @ [digit_char (n mod 10)])"

declare str_nat.simps [simp del]

subsection \<open>static\_type\<close>

fun static_type :: "'ty type_model \<Rightarrow> 'ty java_expression \<Rightarrow> error + 'ty" where
  "static_type tm (JavaVariable n d) = Inr d"
| "static_type tm (JavaLiteral v t) = Inr t"
| "static_type tm (JavaAssignment l r) = static_type tm l"
| "static_type tm (JavaMethodCall recv m as) =
     (case static_type tm recv of
        Inl e \<Rightarrow> Inl e
      | Inr receiver_type \<Rightarrow>
          (case get_method tm receiver_type m of
             Inl e \<Rightarrow> Inl e
           | Inr meth \<Rightarrow> Inr (return_type meth)))"
| "static_type tm (JavaConstructorCall t as) = Inr t"

subsection \<open>check\_types\<close>

text \<open>
  The attribute \<^verbatim>\<open>name\<close> exists on a JavaVariable only; reading it from any other node
  raises AttributeError.
\<close>

fun name_attr :: "'ty java_expression \<Rightarrow> error + string" where
  "name_attr (JavaVariable n d) = Inr n"
| "name_attr e = Inl (AttributeError ''name'')"

definition assign_message :: "string \<Rightarrow> string \<Rightarrow> string \<Rightarrow> string" where
  "assign_message rhs_name var_name lhs_name =
     ''Cannot assign '' @ rhs_name @ '' to variable '' @ var_name @ '' of type '' @ lhs_name"

definition count_message :: "string \<Rightarrow> string \<Rightarrow> nat \<Rightarrow> nat \<Rightarrow> string" where
  "count_message recv_name m expected actual =
     ''Wrong number of arguments for '' @ recv_name @ ''.'' @ m @ ''(): expected ''
       @ str_nat expected @ '', got '' @ str_nat actual"

definition mismatch_message :: "string \<Rightarrow> string \<Rightarrow> string list \<Rightarrow> string list \<Rightarrow> string" where
  "mismatch_message recv_name m expected_type_names actual_type_names =
     recv_name @ ''.'' @ m @ ''() expects arguments of type ('' @ join_comma expected_type_names
       @ ''), but got ('' @ join_comma actual_type_names @ '')''"

text \<open>
  \<open>check_types\<close> returns \<open>Inr ()\<close> where the method returns (nothing), and \<open>Inl e\<close> where it
  raises \<open>e\<close>. \<open>check_args\<close> is the loop of JavaMethodCall.check\_types: it runs over the
  declared parameter types and the arguments side by side (the loop indexes both with the
  same \<open>i\<close>), carrying the two lists of names collected so far. The loop is entered only
  when both sequences have the same length; an argument sequence that ends early would make
  \<^verbatim>\<open>self.args[i]\<close> raise IndexError.
\<close>

fun check_types :: "'ty type_model \<Rightarrow> 'ty java_expression \<Rightarrow> error + unit"
  and check_args :: "'ty type_model \<Rightarrow> string \<Rightarrow> string \<Rightarrow> string list \<Rightarrow> string list
         \<Rightarrow> 'ty list \<Rightarrow> 'ty java_expression list \<Rightarrow> error + unit" where
  "check_types tm (JavaVariable n d) = Inr ()"
| "check_types tm (JavaLiteral v t) = Inr ()"
| "check_types tm (JavaAssignment l r) =
     (case check_types tm l of
        Inl e \<Rightarrow> Inl e
      | Inr _ \<Rightarrow>
     (case check_types tm r of
        Inl e \<Rightarrow> Inl e
      | Inr _ \<Rightarrow>
     (case static_type tm l of
        Inl e \<Rightarrow> Inl e
      | Inr lhs_type \<Rightarrow>
     (case static_type tm r of
        Inl e \<Rightarrow> Inl e
      | Inr rhs_type \<Rightarrow>
          if \<not> is_subtype_of tm rhs_type lhs_type then
            (case name_attr l of
               Inl e \<Rightarrow> Inl e
             | Inr var_name \<Rightarrow>
                 Inl (JavaTypeMismatchError
                   (assign_message (type_name tm rhs_type) var_name (type_name tm lhs_type))))
          else Inr ()))))"
| "check_types tm (JavaMethodCall recv m as) =
     (case check_types tm recv of
        Inl e \<Rightarrow> Inl e
      | Inr _ \<Rightarrow>
     (case static_type tm recv of
        Inl e \<Rightarrow> Inl e
      | Inr receiver_type \<Rightarrow>
     (case get_method tm receiver_type m of
        Inl e \<Rightarrow> Inl e
      | Inr meth \<Rightarrow>
          if length (parameter_types meth) \<noteq> length as then
            Inl (JavaArgumentCountError
              (count_message (type_name tm receiver_type) m
                 (length (parameter_types meth)) (length as)))
          else check_args tm (type_name tm receiver_type) m [] [] (parameter_types meth) as)))"
| "check_types tm (JavaConstructorCall t as) =
     Inl (NotImplementedError (class_name (JavaConstructorCall t as) @ '' must override check_types()''))"
| "check_args tm recv_name m expected_type_names actual_type_names [] as = Inr ()"
| "check_args tm recv_name m expected_type_names actual_type_names (expected_type # ts) [] =
     Inl IndexError"
| "check_args tm recv_name m expected_type_names actual_type_names (expected_type # ts) (arg # as) =
     (case check_types tm arg of
        Inl e \<Rightarrow> Inl e
      | Inr _ \<Rightarrow>
     (case static_type tm arg of
        Inl e \<Rightarrow> Inl e
      | Inr actual_type \<Rightarrow>
          if \<not> is_subtype_of tm actual_type expected_type then
            Inl (JavaTypeMismatchError
              (mismatch_message recv_name m
                 (expected_type_names @ [type_name tm expected_type])
                 (actual_type_names @ [type_name tm actual_type])))
          else check_args tm recv_name m
                 (expected_type_names @ [type_name tm expected_type])
                 (actual_type_names @ [type_name tm actual_type]) ts as))"

subsection \<open>A small type model for concrete runs\<close>

text \<open>
  Modelled from the spec: the built-in type table of types.py is not at hand. The
  examples of the specification use an \<open>int\<close> type, a \<open>String\<close> type, a universal \<open>Object\<close>
  supertype, the \<open>null\<close> type (a subtype of every reference type, not of a primitive type)
  and a class \<open>Foo\<close> with a method \<open>bar(int) -> void\<close>; \<open>Foo.baz(int, int) -> void\<close>,
  \<open>Foo.qux(int, int, Object) -> void\<close> and \<open>String.length() -> int\<close> are added to have methods
  of two, three and no parameters.
\<close>

datatype ty = TInt | TVoid | TNull | TObject | TString | TFoo

fun ty_name :: "ty \<Rightarrow> string" where
  "ty_name TInt = ''int''"
| "ty_name TVoid = ''void''"
| "ty_name TNull = ''null''"
| "ty_name TObject = ''Object''"
| "ty_name TString = ''String''"
| "ty_name TFoo = ''Foo''"

fun ty_is_reference :: "ty \<Rightarrow> bool" where
  "ty_is_reference TObject = True"
| "ty_is_reference TString = True"
| "ty_is_reference TFoo = True"
| "ty_is_reference t = False"

definition ty_is_subtype_of :: "ty \<Rightarrow> ty \<Rightarrow> bool" where
  "ty_is_subtype_of a b =
     (a = b \<or> (ty_is_reference a \<and> b = TObject) \<or> (a = TNull \<and> ty_is_reference b))"

definition ty_methods :: "ty \<Rightarrow> string \<Rightarrow> ty java_method option" where
  "ty_methods t m =
     (if t = TFoo \<and> m = ''bar'' then Some \<lparr>parameter_types = [TInt], return_type = TVoid\<rparr>
      else if t = TFoo \<and> m = ''baz'' then
        Some \<lparr>parameter_types = [TInt, TInt], return_type = TVoid\<rparr>
      else if t = TFoo \<and> m = ''qux'' then
        Some \<lparr>parameter_types = [TInt, TInt, TObject], return_type = TVoid\<rparr>
      else if t = TString \<and> m = ''length'' then
        Some \<lparr>parameter_types = [], return_type = TInt\<rparr>
      else None)"

definition example_model :: "ty type_model" where
  "example_model =
     \<lparr>type_name = ty_name, is_subtype_of = ty_is_subtype_of, methods = ty_methods, NULL = TNull\<rparr>"

subsection \<open>The two operations with the state they could change\<close>

text \<open>
  Python passes objects by reference: a method called on a node may assign to the
  attributes of that node and of every object it reaches from it, and the methods of the
  type model may change the type model. To state that nothing is changed, the two operations
  are written a second time with this state passed along: every call takes the type model
  and the node it is called on, and returns its result together with the node and the type
  model as they are when the call returns or raises. A node owns its children (the
  expressions are trees), so the node after a call is built from its children after their
  calls.

  The methods \<^verbatim>\<open>is_subtype_of\<close> and \<^verbatim>\<open>get_method\<close> of types.py are not at hand; here they
  are a parameter, two operations that return a result and the type model they leave behind.
\<close>

record 'ty type_ops =
  is_subtype_of_op :: "'ty type_model \<Rightarrow> 'ty \<Rightarrow> 'ty \<Rightarrow> bool \<times> 'ty type_model"
  get_method_op :: "'ty type_model \<Rightarrow> 'ty \<Rightarrow> string
                      \<Rightarrow> (error + 'ty java_method) \<times> 'ty type_model"

fun static_type_st :: "'ty type_ops \<Rightarrow> 'ty type_model \<Rightarrow> 'ty java_expression
      \<Rightarrow> (error + 'ty) \<times> 'ty java_expression \<times> 'ty type_model" where
  "static_type_st ops tm (JavaVariable n d) = (Inr d, JavaVariable n d, tm)"
| "static_type_st ops tm (JavaLiteral v t) = (Inr t, JavaLiteral v t, tm)"
| "static_type_st ops tm (JavaAssignment l r) =
     (case static_type_st ops tm l of
        (res, l1, tm1) \<Rightarrow> (res, JavaAssignment l1 r, tm1))"
| "static_type_st ops tm (JavaMethodCall recv m as) =
     (case static_type_st ops tm recv of
        (Inl e, recv1, tm1) \<Rightarrow> (Inl e, JavaMethodCall recv1 m as, tm1)
      | (Inr receiver_type, recv1, tm1) \<Rightarrow>
          (case get_method_op ops tm1 receiver_type m of
             (Inl e, tm2) \<Rightarrow> (Inl e, JavaMethodCall recv1 m as, tm2)
           | (Inr meth, tm2) \<Rightarrow> (Inr (return_type meth), JavaMethodCall recv1 m as, tm2)))"
| "static_type_st ops tm (JavaConstructorCall t as) = (Inr t, JavaConstructorCall t as, tm)"

function check_types_st :: "'ty type_ops \<Rightarrow> 'ty type_model \<Rightarrow> 'ty java_expression
      \<Rightarrow> (error + unit) \<times> 'ty java_expression \<times> 'ty type_model"
  and check_args_st :: "'ty type_ops \<Rightarrow> 'ty type_model \<Rightarrow> 'ty \<Rightarrow> string
      \<Rightarrow> string list \<Rightarrow> string list \<Rightarrow> 'ty list \<Rightarrow> 'ty java_expression list
      \<Rightarrow> (error + unit) \<times> 'ty java_expression list \<times> 'ty type_model" where
  "check_types_st ops tm (JavaVariable n d) = (Inr (), JavaVariable n d, tm)"
| "check_types_st ops tm (JavaLiteral v t) = (Inr (), JavaLiteral v t, tm)"
| "check_types_st ops tm (JavaAssignment l r) =
     (case check_types_st ops tm l of
        (Inl e, l1, tm1) \<Rightarrow> (Inl e, JavaAssignment l1 r, tm1)
      | (Inr _, l1, tm1) \<Rightarrow>
     (case check_types_st ops tm1 r of
        (Inl e, r1, tm2) \<Rightarrow> (Inl e, JavaAssignment l1 r1, tm2)
      | (Inr _, r1, tm2) \<Rightarrow>
     (case static_type_st ops tm2 l1 of
        (Inl e, l2, tm3) \<Rightarrow> (Inl e, JavaAssignment l2 r1, tm3)
      | (Inr lhs_type, l2, tm3) \<Rightarrow>
     (case static_type_st ops tm3 r1 of
        (Inl e, r2, tm4) \<Rightarrow> (Inl e, JavaAssignment l2 r2, tm4)
      | (Inr rhs_type, r2, tm4) \<Rightarrow>
     (case is_subtype_of_op ops tm4 rhs_type lhs_type of
        (sub, tm5) \<Rightarrow>
          if \<not> sub then
            (case name_attr l2 of
               Inl e \<Rightarrow> (Inl e, JavaAssignment l2 r2, tm5)
             | Inr var_name \<Rightarrow>
                 (Inl (JavaTypeMismatchError
                    (assign_message (type_name tm5 rhs_type) var_name (type_name tm5 lhs_type))),
                  JavaAssignment l2 r2, tm5))
          else (Inr (), JavaAssignment l2 r2, tm5))))))"
| "check_types_st ops tm (JavaMethodCall recv m as) =
     (case check_types_st ops tm recv of
        (Inl e, recv1, tm1) \<Rightarrow> (Inl e, JavaMethodCall recv1 m as, tm1)
      | (Inr _, recv1, tm1) \<Rightarrow>
     (case static_type_st ops tm1 recv1 of
        (Inl e, recv2, tm2) \<Rightarrow> (Inl e, JavaMethodCall recv2 m as, tm2)
      | (Inr receiver_type, recv2, tm2) \<Rightarrow>
     (case get_method_op ops tm2 receiver_type m of
        (Inl e, tm3) \<Rightarrow> (Inl e, JavaMethodCall recv2 m as, tm3)
      | (Inr meth, tm3) \<Rightarrow>
          if length (parameter_types meth) \<noteq> length as then
            (Inl (JavaArgumentCountError
               (count_message (type_name tm3 receiver_type) m
                  (length (parameter_types meth)) (length as))),
             JavaMethodCall recv2 m as, tm3)
          else
            (case check_args_st ops tm3 receiver_type m [] [] (parameter_types meth) as of
               (res, as1, tm4) \<Rightarrow> (res, JavaMethodCall recv2 m as1, tm4)))))"
| "check_types_st ops tm (JavaConstructorCall t as) =
     (Inl (NotImplementedError
        (class_name (JavaConstructorCall t as) @ '' must override check_types()'')),
      JavaConstructorCall t as, tm)"
| "check_args_st ops tm receiver_type m expected_type_names actual_type_names [] as =
     (Inr (), as, tm)"
| "check_args_st ops tm receiver_type m expected_type_names actual_type_names
       (expected_type # ts) [] = (Inl IndexError, [], tm)"
| "check_args_st ops tm receiver_type m expected_type_names actual_type_names
       (expected_type # ts) (arg # as) =
     (case check_types_st ops tm arg of
        (Inl e, arg1, tm1) \<Rightarrow> (Inl e, arg1 # as, tm1)
      | (Inr _, arg1, tm1) \<Rightarrow>
     (case static_type_st ops tm1 arg1 of
        (Inl e, arg2, tm2) \<Rightarrow> (Inl e, arg2 # as, tm2)
      | (Inr actual_type, arg2, tm2) \<Rightarrow>
     (case is_subtype_of_op ops tm2 actual_type expected_type of
        (sub, tm3) \<Rightarrow>
          if \<not> sub then
            (Inl (JavaTypeMismatchError
               (mismatch_message (type_name tm3 receiver_type) m
                  (expected_type_names @ [type_name tm2 expected_type])
                  (actual_type_names @ [type_name tm2 actual_type]))),
             arg2 # as, tm3)
          else
            (case check_args_st ops tm3 receiver_type m
                    (expected_type_names @ [type_name tm2 expected_type])
                    (actual_type_names @ [type_name tm2 actual_type]) ts as of
               (res, as1, tm4) \<Rightarrow> (res, arg2 # as1, tm4)))))"
  by pat_completeness auto
termination
  by (relation "measure (\<lambda>x. case x of
        Inl (ops, tm, e) \<Rightarrow> size e
      | Inr (ops, tm, rt, m, en, an, ts, as) \<Rightarrow> size_list size as)") auto

text \<open>The type-model operations leave the type model as it is.\<close>

definition frame_ops :: "'ty type_ops \<Rightarrow> bool" where
  "frame_ops ops \<longleftrightarrow>
     (\<forall>tm a b. snd (is_subtype_of_op ops tm a b) = tm) \<and>
     (\<forall>tm t m. snd (get_method_op ops tm t m) = tm)"

text \<open>The type-model operations of the pure model: they read the type model and return it.\<close>

definition model_ops :: "'ty type_ops" where
  "model_ops =
     \<lparr>is_subtype_of_op = (\<lambda>tm a b. (is_subtype_of tm a b, tm)),
      get_method_op = (\<lambda>tm t m. (get_method tm t m, tm))\<rparr>"

section \<open>Properties\<close>

subsection \<open>Auxiliary facts\<close>

lemma example_model_simps:
  "type_name example_model = ty_name"
  "is_subtype_of example_model = ty_is_subtype_of"
  "methods example_model = ty_methods"
  "NULL example_model = TNull"
  by (simp_all add: example_model_def)

lemma str_nat_small: "n < 10 \<Longrightarrow> str_nat n = [digit_char n]"
  by (simp add: str_nat.simps)

lemma get_method_Some: "methods tm t m = Some meth \<Longrightarrow> get_method tm t m = Inr meth"
  by (simp add: get_method_def)

lemma get_method_None:
  "methods tm t m = None \<Longrightarrow> get_method tm t m = Inl (NoSuchJavaMethod (type_name tm t) m)"
  by (simp add: get_method_def)

text \<open>A checked expression has a static type: the lookups that could fail have been made.\<close>

lemma check_types_ok_static_type:
  "check_types tm e = Inr () \<Longrightarrow> \<exists>T. static_type tm e = Inr T"
  by (induction e) (auto split: sum.splits if_splits)

text \<open>
  The loop over the arguments. As long as every argument is valid and its static type
  conforms to the declared parameter type, the loop goes on, with the names of the declared
  and of the actual types appended to the two lists.
\<close>

lemma check_args_conforming_prefix:
  assumes "list_all2 (\<lambda>a T. check_types tm a = Inr () \<and> static_type tm a = Inr T) pre Ts"
    and "list_all2 (is_subtype_of tm) Ts tsp"
  shows "check_args tm rn m en an (tsp @ ts) (pre @ as) =
         check_args tm rn m (en @ map (type_name tm) tsp) (an @ map (type_name tm) Ts) ts as"
  using assms
proof (induction pre arbitrary: Ts tsp en an)
  case Nil
  then show ?case by simp
next
  case (Cons a pre)
  from Cons.prems(1) obtain T Ts' where Ts: "Ts = T # Ts'"
    and a: "check_types tm a = Inr ()" "static_type tm a = Inr T"
    and rest: "list_all2 (\<lambda>a T. check_types tm a = Inr () \<and> static_type tm a = Inr T) pre Ts'"
    by (auto simp: list_all2_Cons1)
  from Cons.prems(2) Ts obtain t tsp' where tsp: "tsp = t # tsp'"
    and sub: "is_subtype_of tm T t" and rest2: "list_all2 (is_subtype_of tm) Ts' tsp'"
    by (auto simp: list_all2_Cons1)
  show ?case
    using Cons.IH [OF rest rest2] a sub by (simp add: Ts tsp)
qed

lemma check_args_all_conforming:
  assumes "list_all2 (\<lambda>a T. check_types tm a = Inr () \<and> static_type tm a = Inr T) as Ts"
    and "list_all2 (is_subtype_of tm) Ts ts"
  shows "check_args tm rn m en an ts as = Inr ()"
  using check_args_conforming_prefix [OF assms, of rn m en an "[]" "[]"] by simp

lemma check_args_first_mismatch:
  assumes "list_all2 (\<lambda>a T. check_types tm a = Inr () \<and> static_type tm a = Inr T) pre Ts"
    and "list_all2 (is_subtype_of tm) Ts tsp"
    and "check_types tm a = Inr ()" and "static_type tm a = Inr T"
    and "\<not> is_subtype_of tm T t"
  shows "check_args tm rn m [] [] (tsp @ t # tss) (pre @ a # post) =
         Inl (JavaTypeMismatchError (mismatch_message rn m
                (map (type_name tm) (tsp @ [t])) (map (type_name tm) (Ts @ [T]))))"
  using assms(3-5) by (simp add: check_args_conforming_prefix [OF assms(1,2)])

lemma check_args_first_failure:
  assumes "list_all2 (\<lambda>a T. check_types tm a = Inr () \<and> static_type tm a = Inr T) pre Ts"
    and "list_all2 (is_subtype_of tm) Ts tsp"
    and "check_types tm a = Inl e"
  shows "check_args tm rn m [] [] (tsp @ t # tss) (pre @ a # post) = Inl e"
  using assms(3) by (simp add: check_args_conforming_prefix [OF assms(1,2)])

text \<open>A method call whose receiver is valid and whose method resolves with the right arity
  is decided by the loop.\<close>

lemma method_call_enters_loop:
  assumes "check_types tm recv = Inr ()" and "static_type tm recv = Inr rt"
    and "methods tm rt m = Some meth" and "length (parameter_types meth) = length as"
  shows "check_types tm (JavaMethodCall recv m as) =
         check_args tm (type_name tm rt) m [] [] (parameter_types meth) as"
  using assms by (simp add: get_method_Some)

subsection \<open>Constructor calls\<close>

text \<open>
  Claim C1 says that \<open>check_types\<close> of a constructor call validates nothing and completes
  successfully. JavaConstructorCall defines no \<open>check_types\<close> of its own, so the call runs
  the method of the base class JavaExpression, which raises NotImplementedError with the
  message that the subclass must override the method: for every instantiated type and
  every argument sequence the call fails, and it never completes successfully.
\<close>

theorem constructor_call_check_types_not_implemented:
  "check_types tm (JavaConstructorCall t as) =
     Inl (NotImplementedError ''JavaConstructorCall must override check_types()'')"
  by simp

subsection \<open>Method calls: the arity check\<close>

text \<open>
  Claim C3: when the receiver of a method call is valid, the method resolves on the
  receiver's static type, and the number of arguments differs from the number of declared
  parameters, \<open>check_types\<close> raises JavaArgumentCountError, whose message carries the
  expected and the actual count. Nothing is assumed of the arguments: the diagnostic is the
  same whether they are well typed or contain errors of their own, since none of them is
  validated before the counts are compared.
\<close>

theorem method_call_arity_checked_first:
  assumes "check_types tm recv = Inr ()" and "static_type tm recv = Inr rt"
    and "methods tm rt m = Some meth"
    and "length (parameter_types meth) \<noteq> length as"
  shows "check_types tm (JavaMethodCall recv m as) =
         Inl (JavaArgumentCountError
           (''Wrong number of arguments for '' @ type_name tm rt @ ''.'' @ m
              @ ''(): expected '' @ str_nat (length (parameter_types meth))
              @ '', got '' @ str_nat (length as)))"
  using assms by (simp add: get_method_Some count_message_def)

theorem method_call_arity_checked_first_witness:
  "check_types example_model
     (JavaMethodCall (JavaVariable ''f'' TFoo) ''bar''
        [JavaLiteral ''1'' TInt, JavaLiteral ''2'' TInt]) =
     Inl (JavaArgumentCountError ''Wrong number of arguments for Foo.bar(): expected 1, got 2'')
   \<and> check_types example_model
     (JavaMethodCall (JavaVariable ''f'' TFoo) ''bar''
        [JavaAssignment (JavaVariable ''s'' TString) (JavaLiteral ''5'' TInt),
         JavaConstructorCall TFoo []]) =
     Inl (JavaArgumentCountError ''Wrong number of arguments for Foo.bar(): expected 1, got 2'')"
proof -
  let ?recv = "JavaVariable ''f'' TFoo"
  have h1: "check_types example_model ?recv = Inr ()" by simp
  have h2: "static_type example_model ?recv = Inr TFoo" by simp
  have h3: "methods example_model TFoo ''bar'' =
      Some \<lparr>parameter_types = [TInt], return_type = TVoid\<rparr>"
    by (simp add: example_model_simps ty_methods_def)
  show ?thesis
    using method_call_arity_checked_first [OF h1 h2 h3,
        of "[JavaLiteral ''1'' TInt, JavaLiteral ''2'' TInt]"]
      method_call_arity_checked_first [OF h1 h2 h3,
        of "[JavaAssignment (JavaVariable ''s'' TString) (JavaLiteral ''5'' TInt),
             JavaConstructorCall TFoo []]"]
    by (simp add: example_model_simps str_nat_small digit_char_def del: check_types.simps)
qed

subsection \<open>Assignments\<close>

text \<open>
  Claim C4: for a variable of declared type \<open>D\<close> and an expression \<open>e\<close> that is itself valid
  and whose static type is a subtype of \<open>D\<close>, checking the assignment of \<open>e\<close> to the variable
  succeeds, and the static type of the assignment is \<open>D\<close>.
\<close>

theorem assignment_typing:
  assumes "check_types tm e = Inr ()" and "static_type tm e = Inr T"
    and "is_subtype_of tm T D"
  shows "check_types tm (JavaAssignment (JavaVariable n D) e) = Inr ()
       \<and> static_type tm (JavaAssignment (JavaVariable n D) e) = Inr D"
  using assms by simp

theorem assignment_typing_witness:
  "check_types example_model
     (JavaAssignment (JavaVariable ''x'' TInt) (JavaLiteral ''5'' TInt)) = Inr ()
   \<and> static_type example_model
     (JavaAssignment (JavaVariable ''x'' TInt) (JavaLiteral ''5'' TInt)) = Inr TInt"
proof -
  have h1: "check_types example_model (JavaLiteral ''5'' TInt) = Inr ()" by simp
  have h2: "static_type example_model (JavaLiteral ''5'' TInt) = Inr TInt" by simp
  have h3: "is_subtype_of example_model TInt TInt"
    by (simp add: example_model_simps ty_is_subtype_of_def)
  show ?thesis using assignment_typing [OF h1 h2 h3, of "''x''"] by simp
qed

text \<open>
  Claim C5: \<open>check_types\<close> of an assignment validates the left-hand side first (its
  diagnostic wins), then the right-hand side (its diagnostic comes next), and then compares
  the two static types: when the type of the right-hand side is not a subtype of the type of
  the variable, it raises JavaTypeMismatchError with a message made of the name of the
  offending value's type, the name of the variable and the name of the variable's declared
  type; when it is a subtype, the check succeeds.
\<close>

theorem assignment_check_types:
  "(check_types tm l = Inl e \<longrightarrow> check_types tm (JavaAssignment l r) = Inl e)
 \<and> (check_types tm l = Inr () \<and> check_types tm r = Inl e \<longrightarrow>
      check_types tm (JavaAssignment l r) = Inl e)
 \<and> (check_types tm r = Inr () \<and> static_type tm r = Inr T \<and> \<not> is_subtype_of tm T D \<longrightarrow>
      check_types tm (JavaAssignment (JavaVariable n D) r) =
        Inl (JavaTypeMismatchError
          (''Cannot assign '' @ type_name tm T @ '' to variable '' @ n
             @ '' of type '' @ type_name tm D)))
 \<and> (check_types tm r = Inr () \<and> static_type tm r = Inr T \<and> is_subtype_of tm T D \<longrightarrow>
      check_types tm (JavaAssignment (JavaVariable n D) r) = Inr ())"
  by (simp add: assign_message_def)

theorem assignment_check_types_witness:
  "check_types example_model
     (JavaAssignment (JavaConstructorCall TFoo [])
        (JavaAssignment (JavaVariable ''x'' TInt) (JavaLiteral ''s'' TString))) =
     Inl (NotImplementedError ''JavaConstructorCall must override check_types()'')
 \<and> check_types example_model
     (JavaAssignment (JavaVariable ''s'' TString)
        (JavaAssignment (JavaVariable ''x'' TInt) (JavaLiteral ''t'' TString))) =
     Inl (JavaTypeMismatchError ''Cannot assign String to variable x of type int'')
 \<and> check_types example_model
     (JavaAssignment (JavaVariable ''x'' TInt) (JavaLiteral ''null'' TNull)) =
     Inl (JavaTypeMismatchError ''Cannot assign null to variable x of type int'')
 \<and> check_types example_model
     (JavaAssignment (JavaVariable ''o'' TObject) (JavaLiteral ''t'' TString)) = Inr ()"
proof -
  let ?bad = "JavaAssignment (JavaVariable ''x'' TInt) (JavaLiteral ''t'' TString)"
  have bad: "check_types example_model ?bad =
      Inl (JavaTypeMismatchError ''Cannot assign String to variable x of type int'')"
    by (simp add: example_model_simps ty_is_subtype_of_def assign_message_def)
  have c1: "check_types example_model
     (JavaAssignment (JavaConstructorCall TFoo [])
        (JavaAssignment (JavaVariable ''x'' TInt) (JavaLiteral ''s'' TString))) =
     Inl (NotImplementedError ''JavaConstructorCall must override check_types()'')"
    using assignment_check_types [of example_model "JavaConstructorCall TFoo []"
        "NotImplementedError ''JavaConstructorCall must override check_types()''"
        "JavaAssignment (JavaVariable ''x'' TInt) (JavaLiteral ''s'' TString)"]
    by simp
  have c2: "check_types example_model (JavaAssignment (JavaVariable ''s'' TString) ?bad) =
     Inl (JavaTypeMismatchError ''Cannot assign String to variable x of type int'')"
    using assignment_check_types [of example_model "JavaVariable ''s'' TString"
        "JavaTypeMismatchError ''Cannot assign String to variable x of type int''" ?bad]
      bad
    by simp
  have c3: "check_types example_model
     (JavaAssignment (JavaVariable ''x'' TInt) (JavaLiteral ''null'' TNull)) =
     Inl (JavaTypeMismatchError ''Cannot assign null to variable x of type int'')"
    using assignment_check_types [of example_model _ _ "JavaLiteral ''null'' TNull" TNull TInt "''x''"]
    by (simp add: example_model_simps ty_is_subtype_of_def)
  have c4: "check_types example_model
     (JavaAssignment (JavaVariable ''o'' TObject) (JavaLiteral ''t'' TString)) = Inr ()"
    using assignment_check_types [of example_model _ _ "JavaLiteral ''t'' TString" TString TObject "''o''"]
    by (simp add: example_model_simps ty_is_subtype_of_def)
  show ?thesis using c1 c2 c3 c4 by blast
qed

text \<open>
  Claim C6: the static type of an assignment is the static type of its left-hand side, for
  a variable its declared type. The right-hand side is not looked at: the equations hold
  for every right-hand side, valid or not.
\<close>

theorem assignment_static_type:
  "static_type tm (JavaAssignment l r) = static_type tm l
 \<and> static_type tm (JavaAssignment (JavaVariable n D) r) = Inr D"
  by simp

subsection \<open>Method calls: the static type\<close>

text \<open>
  Claim C7: the static type of a method call is the return type of the signature found by
  looking the method name up on the static type of the receiver; when the lookup fails, the
  no-such-method condition of the lookup (with the name of the receiver's type and the
  method name) is what \<open>static_type\<close> raises. Neither the receiver nor the arguments are
  validated: only the static type of the receiver is asked for, and the arguments play no
  part.
\<close>

theorem method_call_static_type:
  assumes "static_type tm recv = Inr rt"
  shows "(methods tm rt m = Some meth \<longrightarrow>
            static_type tm (JavaMethodCall recv m as) = Inr (return_type meth))
       \<and> (methods tm rt m = None \<longrightarrow>
            static_type tm (JavaMethodCall recv m as) =
              Inl (NoSuchJavaMethod (type_name tm rt) m))"
  using assms by (simp add: get_method_def)

theorem method_call_static_type_witness:
  "check_types example_model (JavaConstructorCall TFoo []) \<noteq> Inr ()
 \<and> static_type example_model
     (JavaMethodCall (JavaConstructorCall TFoo []) ''bar'' [JavaConstructorCall TFoo []]) =
     Inr TVoid
 \<and> static_type example_model
     (JavaMethodCall (JavaConstructorCall TFoo []) ''length2'' [JavaConstructorCall TFoo []]) =
     Inl (NoSuchJavaMethod ''Foo'' ''length2'')"
proof -
  have h: "static_type example_model (JavaConstructorCall TFoo []) = Inr TFoo" by simp
  have m1: "methods example_model TFoo ''bar'' =
      Some \<lparr>parameter_types = [TInt], return_type = TVoid\<rparr>"
    by (simp add: example_model_simps ty_methods_def)
  have m2: "methods example_model TFoo ''length2'' = None"
    by (simp add: example_model_simps ty_methods_def)
  have c0: "check_types example_model (JavaConstructorCall TFoo []) \<noteq> Inr ()" by simp
  have c1: "static_type example_model
     (JavaMethodCall (JavaConstructorCall TFoo []) ''bar'' [JavaConstructorCall TFoo []]) =
     Inr TVoid"
    using method_call_static_type [OF h, of "''bar''" _ "[JavaConstructorCall TFoo []]"] m1
    by (simp del: static_type.simps)
  have c2: "static_type example_model
     (JavaMethodCall (JavaConstructorCall TFoo []) ''length2'' [JavaConstructorCall TFoo []]) =
     Inl (NoSuchJavaMethod ''Foo'' ''length2'')"
    using method_call_static_type [OF h, of "''length2''" _ "[JavaConstructorCall TFoo []]"] m2
    by (simp add: example_model_simps del: static_type.simps)
  show ?thesis using c0 c1 c2 by blast
qed

subsection \<open>Method calls: the loop over the arguments\<close>

text \<open>
  Claim C2 says that the message of the type mismatch at position \<open>k\<close> lists the full
  sequence of declared parameter types and the full sequence of argument types. The loop
  appends one name to each list per iteration and raises from inside the iteration that
  finds the mismatch, so the message holds the names of positions \<open>0..k\<close> only. For
  \<open>Foo.baz(int, int)\<close> called with a String literal and an int literal the mismatch is at
  position 0, and the message names one declared type and one actual type, not two.
\<close>

theorem method_call_mismatch_message_stops_at_k:
  "check_types example_model
     (JavaMethodCall (JavaVariable ''f'' TFoo) ''baz''
        [JavaLiteral ''x'' TString, JavaLiteral ''2'' TInt]) =
     Inl (JavaTypeMismatchError ''Foo.baz() expects arguments of type (int), but got (String)'')"
  by (simp add: example_model_simps get_method_def ty_methods_def ty_is_subtype_of_def
      mismatch_message_def)

text \<open>
  Claim C9: in a method call of matching arity, let the arguments before position \<open>k\<close> be
  valid and conforming, and the argument at position \<open>k\<close> be valid with a static type that
  is not a subtype of the declared parameter type. Then \<open>check_types\<close> raises the one
  type-mismatch diagnostic of position \<open>k\<close>, made of the names up to position \<open>k\<close>. The
  arguments after \<open>k\<close> are arbitrary and do not occur in the result: they are not validated,
  and no diagnostic of theirs is raised or collected.
\<close>

theorem method_call_aborts_at_first_mismatch:
  assumes "check_types tm recv = Inr ()" and "static_type tm recv = Inr rt"
    and "methods tm rt m = Some meth"
    and "parameter_types meth = tsp @ t # tss" and "length post = length tss"
    and "list_all2 (\<lambda>a T. check_types tm a = Inr () \<and> static_type tm a = Inr T) pre Ts"
    and "list_all2 (is_subtype_of tm) Ts tsp"
    and "check_types tm a = Inr ()" and "static_type tm a = Inr T"
    and "\<not> is_subtype_of tm T t"
  shows "check_types tm (JavaMethodCall recv m (pre @ a # post)) =
         Inl (JavaTypeMismatchError
           (type_name tm rt @ ''.'' @ m @ ''() expects arguments of type (''
              @ join_comma (map (type_name tm) (tsp @ [t])) @ ''), but got (''
              @ join_comma (map (type_name tm) (Ts @ [T])) @ '')''))"
proof -
  have len: "length (parameter_types meth) = length (pre @ a # post)"
    using assms(4,5) list_all2_lengthD [OF assms(6)] list_all2_lengthD [OF assms(7)] by simp
  have "check_types tm (JavaMethodCall recv m (pre @ a # post)) =
        check_args tm (type_name tm rt) m [] [] (tsp @ t # tss) (pre @ a # post)"
    using method_call_enters_loop [OF assms(1-3) len] assms(4) by simp
  also have "\<dots> = Inl (JavaTypeMismatchError (mismatch_message (type_name tm rt) m
                (map (type_name tm) (tsp @ [t])) (map (type_name tm) (Ts @ [T]))))"
    by (rule check_args_first_mismatch [OF assms(6-10)])
  finally show ?thesis by (simp add: mismatch_message_def)
qed

theorem method_call_aborts_at_first_mismatch_witness:
  "check_types example_model
     (JavaMethodCall (JavaVariable ''f'' TFoo) ''qux''
        [JavaLiteral ''1'' TInt, JavaLiteral ''x'' TString, JavaConstructorCall TFoo []]) =
     Inl (JavaTypeMismatchError
       ''Foo.qux() expects arguments of type (int, int), but got (int, String)'')
 \<and> check_types example_model (JavaConstructorCall TFoo []) =
     Inl (NotImplementedError ''JavaConstructorCall must override check_types()'')"
proof -
  let ?recv = "JavaVariable ''f'' TFoo"
  have h1: "check_types example_model ?recv = Inr ()" by simp
  have h2: "static_type example_model ?recv = Inr TFoo" by simp
  have h3: "methods example_model TFoo ''qux'' =
      Some \<lparr>parameter_types = [TInt, TInt, TObject], return_type = TVoid\<rparr>"
    by (simp add: example_model_simps ty_methods_def)
  have h4: "parameter_types \<lparr>parameter_types = [TInt, TInt, TObject], return_type = TVoid\<rparr> =
      [TInt] @ TInt # [TObject]" by simp
  have h5: "length [JavaConstructorCall TFoo []] = length [TObject]" by simp
  have h6: "list_all2 (\<lambda>a T. check_types example_model a = Inr () \<and>
      static_type example_model a = Inr T) [JavaLiteral ''1'' TInt] [TInt]" by simp
  have h7: "list_all2 (is_subtype_of example_model) [TInt] [TInt]"
    by (simp add: example_model_simps ty_is_subtype_of_def)
  have h8: "check_types example_model (JavaLiteral ''x'' TString) = Inr ()" by simp
  have h9: "static_type example_model (JavaLiteral ''x'' TString) = Inr TString" by simp
  have h10: "\<not> is_subtype_of example_model TString TInt"
    by (simp add: example_model_simps ty_is_subtype_of_def)
  have c1: "check_types example_model
     (JavaMethodCall (JavaVariable ''f'' TFoo) ''qux''
        [JavaLiteral ''1'' TInt, JavaLiteral ''x'' TString, JavaConstructorCall TFoo []]) =
     Inl (JavaTypeMismatchError
       ''Foo.qux() expects arguments of type (int, int), but got (int, String)'')"
    using method_call_aborts_at_first_mismatch [OF h1 h2 h3 h4 h5 h6 h7 h8 h9 h10]
    by (simp add: example_model_simps del: check_types.simps)
  have c2: "check_types example_model (JavaConstructorCall TFoo []) =
     Inl (NotImplementedError ''JavaConstructorCall must override check_types()'')"
    by simp
  show ?thesis using c1 c2 by blast
qed

text \<open>
  Claim C10: in a method call of matching arity, the arguments are taken in order, and an
  argument is validated before its static type is compared with the declared parameter
  type. When the arguments before position \<open>i\<close> are valid and conforming and the validation
  of the argument at position \<open>i\<close> raises a diagnostic, that diagnostic is the result,
  whatever the static type of that argument is (conforming or not) and whatever the later
  arguments are.
\<close>

theorem method_call_argument_diagnostic_first:
  assumes "check_types tm recv = Inr ()" and "static_type tm recv = Inr rt"
    and "methods tm rt m = Some meth"
    and "parameter_types meth = tsp @ t # tss" and "length post = length tss"
    and "list_all2 (\<lambda>a T. check_types tm a = Inr () \<and> static_type tm a = Inr T) pre Ts"
    and "list_all2 (is_subtype_of tm) Ts tsp"
    and "check_types tm a = Inl e"
  shows "check_types tm (JavaMethodCall recv m (pre @ a # post)) = Inl e"
proof -
  have len: "length (parameter_types meth) = length (pre @ a # post)"
    using assms(4,5) list_all2_lengthD [OF assms(6)] list_all2_lengthD [OF assms(7)] by simp
  have "check_types tm (JavaMethodCall recv m (pre @ a # post)) =
        check_args tm (type_name tm rt) m [] [] (tsp @ t # tss) (pre @ a # post)"
    using method_call_enters_loop [OF assms(1-3) len] assms(4) by simp
  also have "\<dots> = Inl e"
    by (rule check_args_first_failure [OF assms(6-8)])
  finally show ?thesis .
qed

theorem method_call_argument_diagnostic_first_witness:
  "check_types example_model
     (JavaMethodCall (JavaVariable ''f'' TFoo) ''qux''
        [JavaLiteral ''1'' TInt,
         JavaAssignment (JavaVariable ''s'' TString) (JavaLiteral ''5'' TInt),
         JavaConstructorCall TFoo []]) =
     Inl (JavaTypeMismatchError ''Cannot assign int to variable s of type String'')
 \<and> static_type example_model
     (JavaAssignment (JavaVariable ''s'' TString) (JavaLiteral ''5'' TInt)) = Inr TString
 \<and> \<not> is_subtype_of example_model TString TInt"
proof -
  let ?recv = "JavaVariable ''f'' TFoo"
  let ?a = "JavaAssignment (JavaVariable ''s'' TString) (JavaLiteral ''5'' TInt)"
  have h1: "check_types example_model ?recv = Inr ()" by simp
  have h2: "static_type example_model ?recv = Inr TFoo" by simp
  have h3: "methods example_model TFoo ''qux'' =
      Some \<lparr>parameter_types = [TInt, TInt, TObject], return_type = TVoid\<rparr>"
    by (simp add: example_model_simps ty_methods_def)
  have h4: "parameter_types \<lparr>parameter_types = [TInt, TInt, TObject], return_type = TVoid\<rparr> =
      [TInt] @ TInt # [TObject]" by simp
  have h5: "length [JavaConstructorCall TFoo []] = length [TObject]" by simp
  have h6: "list_all2 (\<lambda>a T. check_types example_model a = Inr () \<and>
      static_type example_model a = Inr T) [JavaLiteral ''1'' TInt] [TInt]" by simp
  have h7: "list_all2 (is_subtype_of example_model) [TInt] [TInt]"
    by (simp add: example_model_simps ty_is_subtype_of_def)
  have h8: "check_types example_model ?a =
      Inl (JavaTypeMismatchError ''Cannot assign int to variable s of type String'')"
    by (simp add: example_model_simps ty_is_subtype_of_def assign_message_def)
  have c2: "static_type example_model ?a = Inr TString" by simp
  have c3: "\<not> is_subtype_of example_model TString TInt"
    by (simp add: example_model_simps ty_is_subtype_of_def)
  show ?thesis
    using method_call_argument_diagnostic_first [OF h1 h2 h3 h4 h5 h6 h7 h8] c2 c3
    by (simp del: check_types.simps static_type.simps)
qed

subsection \<open>The state-passing operations\<close>

lemma frame_ops_subtype:
  "frame_ops ops \<Longrightarrow> is_subtype_of_op ops tm a b = (sub, tm') \<Longrightarrow> tm' = tm"
  unfolding frame_ops_def by (metis snd_conv)

lemma frame_ops_get_method:
  "frame_ops ops \<Longrightarrow> get_method_op ops tm t m = (res, tm') \<Longrightarrow> tm' = tm"
  unfolding frame_ops_def by (metis snd_conv)

lemma frame_ops_model_ops: "frame_ops model_ops"
  by (simp add: frame_ops_def model_ops_def)

lemma static_type_st_frame:
  "frame_ops ops \<Longrightarrow> static_type_st ops tm e = (res, e', tm') \<Longrightarrow> e' = e \<and> tm' = tm"
proof (induction e arbitrary: tm res e' tm')
  case (JavaAssignment l r)
  then show ?case by (auto split: prod.splits)
next
  case (JavaMethodCall recv m as)
  then show ?case
    by (auto split: prod.splits sum.splits dest: frame_ops_get_method)
qed auto

lemma check_args_st_frame_step:
  assumes fr: "frame_ops ops"
    and IH: "\<And>a tm res a' tm'. a \<in> set as \<Longrightarrow> check_types_st ops tm a = (res, a', tm')
               \<Longrightarrow> a' = a \<and> tm' = tm"
    and run: "check_args_st ops tm rt m en an ts as = (res, as', tm')"
  shows "as' = as \<and> tm' = tm"
  using IH run
proof (induction as arbitrary: tm en an ts res as' tm')
  case Nil
  then show ?case by (cases ts) auto
next
  case (Cons a as)
  show ?case
  proof (cases ts)
    case Nil
    with Cons.prems(2) show ?thesis by simp
  next
    case ts: (Cons t ts')
    obtain r1 a1 tm1 where c1: "check_types_st ops tm a = (r1, a1, tm1)"
      by (metis prod_cases3)
    from Cons.prems(1) [OF _ c1] have e1: "a1 = a" "tm1 = tm" by simp_all
    obtain r2 a2 tm2 where c2: "static_type_st ops tm a = (r2, a2, tm2)"
      by (metis prod_cases3)
    from static_type_st_frame [OF fr c2] have e2: "a2 = a" "tm2 = tm" by simp_all
    show ?thesis
    proof (cases r1)
      case (Inl e)
      with Cons.prems(2) c1 e1 ts show ?thesis by simp
    next
      case r1: (Inr u)
      show ?thesis
      proof (cases r2)
        case (Inl e)
        with Cons.prems(2) c1 e1 c2 e2 r1 ts show ?thesis by simp
      next
        case r2: (Inr actual_type)
        obtain sub tm3 where c3: "is_subtype_of_op ops tm actual_type t = (sub, tm3)"
          by (metis prod.exhaust)
        from frame_ops_subtype [OF fr c3] have e3: "tm3 = tm" .
        show ?thesis
        proof (cases sub)
          case False
          with Cons.prems(2) c1 e1 c2 e2 r1 r2 c3 e3 ts show ?thesis by simp
        next
          case True
          obtain r4 as4 tm4 where c4: "check_args_st ops tm rt m
              (en @ [type_name tm t]) (an @ [type_name tm actual_type]) ts' as = (r4, as4, tm4)"
            by (metis prod_cases3)
          have "as4 = as \<and> tm4 = tm"
            by (rule Cons.IH [OF _ c4]) (rule Cons.prems(1), simp_all)
          with Cons.prems(2) c1 e1 c2 e2 r1 r2 c3 e3 c4 True ts show ?thesis by simp
        qed
      qed
    qed
  qed
qed

lemma check_types_st_frame:
  "frame_ops ops \<Longrightarrow> check_types_st ops tm e = (res, e', tm') \<Longrightarrow> e' = e \<and> tm' = tm"
proof (induction e arbitrary: tm res e' tm')
  case (JavaVariable n d)
  then show ?case by simp
next
  case (JavaLiteral v t)
  then show ?case by simp
next
  case (JavaAssignment l r)
  note fr = JavaAssignment.prems(1)
  obtain r1 l1 tm1 where c1: "check_types_st ops tm l = (r1, l1, tm1)"
    by (metis prod_cases3)
  from JavaAssignment.IH(1) [OF fr c1] have e1: "l1 = l" "tm1 = tm" by simp_all
  obtain r2 r1' tm2 where c2: "check_types_st ops tm r = (r2, r1', tm2)"
    by (metis prod_cases3)
  from JavaAssignment.IH(2) [OF fr c2] have e2: "r1' = r" "tm2 = tm" by simp_all
  obtain r3 l2 tm3 where c3: "static_type_st ops tm l = (r3, l2, tm3)"
    by (metis prod_cases3)
  from static_type_st_frame [OF fr c3] have e3: "l2 = l" "tm3 = tm" by simp_all
  obtain r4 r2' tm4 where c4: "static_type_st ops tm r = (r4, r2', tm4)"
    by (metis prod_cases3)
  from static_type_st_frame [OF fr c4] have e4: "r2' = r" "tm4 = tm" by simp_all
  from JavaAssignment.prems(2) c1 e1 c2 e2 c3 e3 c4 e4 show ?case
    by (cases r1; cases r2; cases r3; cases r4)
       (auto split: sum.splits if_splits prod.splits dest: frame_ops_subtype [OF fr])
next
  case (JavaMethodCall recv m as)
  note fr = JavaMethodCall.prems(1)
  obtain r1 recv1 tm1 where c1: "check_types_st ops tm recv = (r1, recv1, tm1)"
    by (metis prod_cases3)
  from JavaMethodCall.IH(1) [OF fr c1] have e1: "recv1 = recv" "tm1 = tm" by simp_all
  obtain r2 recv2 tm2 where c2: "static_type_st ops tm recv = (r2, recv2, tm2)"
    by (metis prod_cases3)
  from static_type_st_frame [OF fr c2] have e2: "recv2 = recv" "tm2 = tm" by simp_all
  have loop: "\<And>rt en an ts res as' tm'.
      check_args_st ops tm rt m en an ts as = (res, as', tm') \<Longrightarrow> as' = as \<and> tm' = tm"
    by (rule check_args_st_frame_step [OF fr]) (rule JavaMethodCall.IH(2) [OF _ fr])
  from JavaMethodCall.prems(2) c1 e1 c2 e2 show ?case
    by (cases r1; cases r2)
       (auto split: sum.splits if_splits prod.splits
          dest: frame_ops_get_method [OF fr] loop)
next
  case (JavaConstructorCall t as)
  then show ?case by simp
qed

text \<open>
  With the operations of the pure model, the state-passing operations compute the results
  of \<open>static_type\<close> and \<open>check_types\<close>: the two are the same program.
\<close>

lemma model_ops_simps:
  "is_subtype_of_op model_ops tm a b = (is_subtype_of tm a b, tm)"
  "get_method_op model_ops tm t m = (get_method tm t m, tm)"
  by (simp_all add: model_ops_def)

lemma static_type_st_model_ops:
  "static_type_st model_ops tm e = (static_type tm e, e, tm)"
  by (induction e arbitrary: tm) (auto simp: model_ops_simps split: sum.splits)

lemma check_args_st_model_ops:
  assumes "\<And>a tm. a \<in> set as \<Longrightarrow> check_types_st model_ops tm a = (check_types tm a, a, tm)"
  shows "check_args_st model_ops tm rt m en an ts as =
         (check_args tm (type_name tm rt) m en an ts as, as, tm)"
  using assms
proof (induction as arbitrary: en an ts)
  case Nil
  then show ?case by (cases ts) auto
next
  case (Cons a as)
  show ?case
  proof (cases ts)
    case Nil
    then show ?thesis by simp
  next
    case (Cons t ts')
    have a: "check_types_st model_ops tm a = (check_types tm a, a, tm)"
      by (rule Cons.prems) simp
    have rest: "\<And>en an. check_args_st model_ops tm rt m en an ts' as =
        (check_args tm (type_name tm rt) m en an ts' as, as, tm)"
      by (rule Cons.IH) (rule Cons.prems, simp)
    show ?thesis
      by (simp add: Cons a rest static_type_st_model_ops model_ops_simps split: sum.splits)
  qed
qed

lemma check_types_st_model_ops:
  "check_types_st model_ops tm e = (check_types tm e, e, tm)"
proof (induction e arbitrary: tm)
  case (JavaAssignment l r)
  then show ?case
    by (simp add: static_type_st_model_ops model_ops_simps split: sum.splits)
next
  case (JavaMethodCall recv m as)
  have loop: "\<And>tm rt en an ts. check_args_st model_ops tm rt m en an ts as =
      (check_args tm (type_name tm rt) m en an ts as, as, tm)"
    by (rule check_args_st_model_ops) (rule JavaMethodCall.IH(2))
  show ?case
    by (simp add: JavaMethodCall.IH(1) static_type_st_model_ops loop model_ops_simps
        split: sum.splits)
qed simp_all

subsection \<open>No mutation\<close>

text \<open>
  Claim C8: \<open>check_types\<close> and \<open>static_type\<close> change no attribute of any node of the tree and
  no part of the type model, whether they return or raise. In the state-passing version of
  the two operations, for every expression and every type model, the node and the type
  model that a call leaves behind are the node and the type model it was given, provided the
  two type-model operations it calls (which belong to types.py) leave the type model as it
  is. A call of \<open>check_types\<close> either raises or returns the unit value, that is, nothing.
\<close>

theorem check_types_static_type_mutate_nothing:
  assumes "frame_ops ops"
  shows "snd (check_types_st ops tm e) = (e, tm)
       \<and> snd (static_type_st ops tm e) = (e, tm)
       \<and> (fst (check_types_st ops tm e) = Inr () \<or> (\<exists>err. fst (check_types_st ops tm e) = Inl err))"
proof -
  obtain r1 e1 tm1 where c1: "check_types_st ops tm e = (r1, e1, tm1)"
    by (metis prod_cases3)
  obtain r2 e2 tm2 where c2: "static_type_st ops tm e = (r2, e2, tm2)"
    by (metis prod_cases3)
  have "fst (check_types_st ops tm e) = Inr () \<or> (\<exists>err. fst (check_types_st ops tm e) = Inl err)"
    by (cases "fst (check_types_st ops tm e)") simp_all
  with check_types_st_frame [OF assms c1] static_type_st_frame [OF assms c2] c1 c2
  show ?thesis by simp
qed

theorem check_types_static_type_mutate_nothing_witness:
  "frame_ops (model_ops :: ty type_ops)
 \<and> check_types_st model_ops example_model
     (JavaMethodCall (JavaVariable ''f'' TFoo) ''baz''
        [JavaLiteral ''x'' TString, JavaLiteral ''2'' TInt]) =
     (Inl (JavaTypeMismatchError ''Foo.baz() expects arguments of type (int), but got (String)''),
      JavaMethodCall (JavaVariable ''f'' TFoo) ''baz''
        [JavaLiteral ''x'' TString, JavaLiteral ''2'' TInt],
      example_model)
 \<and> snd (static_type_st model_ops example_model
     (JavaMethodCall (JavaVariable ''f'' TFoo) ''baz''
        [JavaLiteral ''x'' TString, JavaLiteral ''2'' TInt])) =
     (JavaMethodCall (JavaVariable ''f'' TFoo) ''baz''
        [JavaLiteral ''x'' TString, JavaLiteral ''2'' TInt],
      example_model)"
proof -
  let ?e = "JavaMethodCall (JavaVariable ''f'' TFoo) ''baz''
        [JavaLiteral ''x'' TString, JavaLiteral ''2'' TInt]"
  have h: "frame_ops (model_ops :: ty type_ops)" by (rule frame_ops_model_ops)
  have res: "fst (check_types_st model_ops example_model ?e) =
      Inl (JavaTypeMismatchError ''Foo.baz() expects arguments of type (int), but got (String)'')"
    by (simp add: model_ops_simps example_model_simps get_method_def ty_methods_def
        ty_is_subtype_of_def mismatch_message_def)
  have "check_types_st model_ops example_model ?e =
      (fst (check_types_st model_ops example_model ?e),
       snd (check_types_st model_ops example_model ?e))" by simp
  with check_types_static_type_mutate_nothing [OF h, of example_model ?e] res h
  show ?thesis by (simp del: check_types_st.simps static_type_st.simps)
qed

end
